theory Spec2Isabelle
  imports Main "HOL-Library.Word" "HOL-Library.Multiset"
begin

section \<open>The USB printer adapter (packages/usb/src/index.ts)\<close>

text \<open>
  The adapter is a class with three mutable fields (\<open>device\<close>, \<open>endpoint\<close>,
  \<open>deviceToPcEndpoint\<close>) that talks to a host USB library. The model below keeps the
  fields in a record, threads the record through every method, and records everything
  the adapter does to the outside world (events it emits, callbacks it invokes, calls
  into the host library) in one ordered trace, so that ordering properties can be read
  off the trace. An exception thrown synchronously by a method is the first component
  of the method's result; the second component is the adapter as the exception left it.
  The callback passed to \<open>open\<close> may throw, and what it throws is part of the model.
  Event listeners and the callbacks passed to \<open>write\<close> and \<open>close\<close> are taken not to
  throw, no callback calls back into the adapter, and \<open>setAltSetting\<close> is taken only to
  schedule the callback it is given.
\<close>

subsection \<open>Host-side data\<close>

text \<open>
  Errors seen by the adapter: the two \<open>new Error(...)\<close> values it creates itself, the
  \<open>TypeError\<close> JavaScript raises when a property of \<open>null\<close> or \<open>undefined\<close> is read,
  and whatever the host library throws (for instance \<open>LIBUSB_ERROR_ACCESS\<close>).
\<close>

datatype error = Error string | TypeError string | HostError string

text \<open>\<open>IFACE_CLASS\<close>, lines 11 to 16.\<close>

definition IFACE_CLASS_AUDIO :: nat where "IFACE_CLASS_AUDIO = 0x01"
definition IFACE_CLASS_HID :: nat where "IFACE_CLASS_HID = 0x03"
definition IFACE_CLASS_PRINTER :: nat where "IFACE_CLASS_PRINTER = 0x07"
definition IFACE_CLASS_HUB :: nat where "IFACE_CLASS_HUB = 0x09"

text \<open>
  An endpoint of the host library: the adapter reads only its \<open>direction\<close>, a string.
\<close>

record usb_endpoint =
  address :: nat
  direction :: string

text \<open>
  An interface of an opened device. The three host calls the adapter makes on it
  (\<open>isKernelDriverActive()\<close>, \<open>detachKernelDriver()\<close>, \<open>claim()\<close>) may throw; what
  each of them does during one \<open>open()\<close> is part of the interface's description:
  \<open>Inl e\<close> or \<open>Some e\<close> is the exception thrown.
\<close>

record usb_interface =
  interfaceNumber :: nat
  altSetting :: nat
  isKernelDriverActive :: "error + bool"
  detachKernelDriver :: "error option"
  claim :: "error option"
  endpoints :: "usb_endpoint list"

text \<open>
  The configuration descriptor of a device, as \<open>findPrinter\<close> reads it: reading it may
  throw (also when \<open>interfaces\<close> is missing or malformed), it may be \<open>undefined\<close>, or it
  lists for every interface the descriptors of its alternate settings.
\<close>

record interface_descriptor =
  bInterfaceClass :: nat

datatype config_descriptor =
  DescriptorThrows error
  | DescriptorUndefined
  | Descriptor "interface_descriptor list list"

text \<open>
  A device handle of the host library. \<open>busNumber\<close> and \<open>deviceAddress\<close> give the
  handle its identity; \<open>open_error\<close> and \<open>close_error\<close> say whether the host-level
  \<open>device.open()\<close> and \<open>device.close()\<close> throw.
\<close>

record usb_device =
  busNumber :: nat
  deviceAddress :: nat
  idVendor :: nat
  idProduct :: nat
  configDescriptor :: config_descriptor
  open_error :: "error option"
  close_error :: "error option"
  interfaces :: "usb_interface list"

text \<open>The payload of \<open>write\<close>: \<open>string | Buffer\<close>.\<close>

datatype payload = Str string | Buf "8 word list"

subsection \<open>The adapter and its trace\<close>

text \<open>
  What the field \<open>device\<close> of an adapter can hold besides \<open>null\<close>: a device handle or,
  after \<open>new USBAdapter(n)\<close> with a single non-zero number, that number.
\<close>

datatype device_value = Handle usb_device | Number nat

datatype event =
  Connect "device_value option"
  | Disconnect usb_device
  | Detach usb_device
  | Close usb_device
  | Data payload

datatype action =
  Emit event
  | OpenCallback "error option"
  | CloseCallback "error option"
  | WriteCallback "error option"
  | HostDeviceOpen usb_device
  | HostDeviceClose usb_device
  | HostSetAltSetting usb_interface
  | HostDetachKernelDriver usb_interface
  | HostClaim usb_interface
  | HostTransfer usb_endpoint payload
  | HostRemoveAllListeners
  | ConsoleError error
  | Uncaught error

text \<open>
  \<open>listening\<close> says whether the handler registered by \<open>usb.on("detach", ...)\<close> in the
  constructor is still registered (\<open>close\<close> removes it).
\<close>

record adapter =
  device :: "device_value option"
  endpoint :: "usb_endpoint option"
  deviceToPcEndpoint :: "usb_endpoint option"
  listening :: bool
  trace :: "action list"

definition log :: "action \<Rightarrow> adapter \<Rightarrow> adapter" where
  "log x a = a\<lparr>trace := trace a @ [x]\<rparr>"

text \<open>\<open>callback && callback(x)\<close>: the flag says whether a callback was passed.\<close>

definition invoke :: "bool \<Rightarrow> action \<Rightarrow> adapter \<Rightarrow> adapter" where
  "invoke cb x a = (if cb then log x a else a)"

text \<open>
  The callback passed to \<open>open\<close>: absent, or a function that, handed an error or \<open>null\<close>,
  returns or throws. What it does may depend on everything that happened before, which
  is the trace at the moment of the call; \<open>Some e\<close> is the exception it throws.
\<close>

type_synonym open_callback = "(error option \<Rightarrow> action list \<Rightarrow> error option) option"

definition call_open_callback ::
  "open_callback \<Rightarrow> error option \<Rightarrow> adapter \<Rightarrow> error option \<times> adapter" where
  "call_open_callback cb r a =
     (case cb of
        None \<Rightarrow> (None, a)
      | Some f \<Rightarrow> (f r (trace a), log (OpenCallback r) a))"

subsection \<open>Device selection\<close>

text \<open>
  \<open>findPrinter\<close>, lines 54 to 68. The inner filters keep the alternate settings whose
  class is \<open>PRINTER\<close> and the interfaces that have such a setting; a length is truthy
  when it is not zero; \<open>undefined\<close> (from \<open>?.\<close>) is falsy; an exception gives \<open>false\<close>.
\<close>

definition printer_settings :: "interface_descriptor list \<Rightarrow> interface_descriptor list" where
  "printer_settings iface = filter (\<lambda>conf. bInterfaceClass conf = IFACE_CLASS_PRINTER) iface"

definition printer_interfaces ::
  "interface_descriptor list list \<Rightarrow> interface_descriptor list list" where
  "printer_interfaces ifaces = filter (\<lambda>iface. length (printer_settings iface) \<noteq> 0) ifaces"

definition findPrinter_keep :: "usb_device \<Rightarrow> bool" where
  "findPrinter_keep dev =
     (case configDescriptor dev of
        DescriptorThrows e \<Rightarrow> False
      | DescriptorUndefined \<Rightarrow> False
      | Descriptor ifaces \<Rightarrow> length (printer_interfaces ifaces) \<noteq> 0)"

definition findPrinter :: "usb_device list \<Rightarrow> usb_device list" where
  "findPrinter deviceList = filter findPrinter_keep deviceList"

text \<open>
  The specification's words for the same filter: the device exposes at least one
  interface whose class code equals \<open>PRINTER\<close>, and its descriptor can be inspected.
\<close>

definition exposes_printer_interface :: "usb_device \<Rightarrow> bool" where
  "exposes_printer_interface dev =
     (case configDescriptor dev of
        Descriptor ifaces \<Rightarrow>
          (\<exists>iface \<in> set ifaces. \<exists>conf \<in> set iface. bInterfaceClass conf = 0x07)
      | _ \<Rightarrow> False)"

text \<open>
  Modelled from the spec: \<open>findByIds\<close> belongs to the host library (package \<open>usb\<close>),
  which is not among the sources. It is the resolve-by-vendor/product-id lookup of the
  host subsystem: the first attached device with both ids, \<open>undefined\<close> when there is
  none.
\<close>

definition findByIds :: "usb_device list \<Rightarrow> nat \<Rightarrow> nat \<Rightarrow> usb_device option" where
  "findByIds deviceList vid pid =
     find (\<lambda>d. idVendor d = vid \<and> idProduct d = pid) deviceList"

text \<open>
  \<open>getDevice\<close>, lines 70 to 81: a promise, resolved with the looked-up device
  (possibly \<open>undefined\<close>) or rejected with what \<open>device.open()\<close> threw.
\<close>

datatype 'a promise = Resolved 'a | Rejected error

definition getDevice :: "usb_device list \<Rightarrow> nat \<Rightarrow> nat \<Rightarrow> usb_device option promise" where
  "getDevice deviceList vid pid =
     (case findByIds deviceList vid pid of
        None \<Rightarrow> Resolved None
      | Some d \<Rightarrow> (case open_error d of Some err \<Rightarrow> Rejected err | None \<Rightarrow> Resolved (Some d)))"

text \<open>
  The constructor, lines 19 to 52. The first argument is absent, a number or (as the
  comment in the source says) a device; the second is absent or a number. A number is
  truthy when it is not zero.
\<close>

datatype ctor_arg = Absent | Num nat | Dev usb_device

fun truthy :: "ctor_arg \<Rightarrow> bool" where
  "truthy Absent = False"
| "truthy (Num n) = (n \<noteq> 0)"
| "truthy (Dev d) = True"

definition new_adapter :: "usb_device \<Rightarrow> adapter" where
  "new_adapter d =
     \<lparr>device = Some (Handle d), endpoint = None, deviceToPcEndpoint = None,
      listening = True, trace = []\<rparr>"

definition new_adapter_on_number :: "nat \<Rightarrow> adapter" where
  "new_adapter_on_number n =
     \<lparr>device = Some (Number n), endpoint = None, deviceToPcEndpoint = None,
      listening = True, trace = []\<rparr>"

text \<open>
  What the constructor ends up holding as its device: nothing (it then throws), a device,
  or, when only a non-zero number is passed, that number itself (\<open>this.device = vid\<close>).
\<close>

datatype selection = NoDevice | Selected usb_device | NotADevice nat

definition select_device :: "usb_device list \<Rightarrow> ctor_arg \<Rightarrow> ctor_arg \<Rightarrow> selection" where
  "select_device deviceList vid pid =
     (if truthy vid \<and> truthy pid then
        (case (vid, pid) of
           (Num v, Num p) \<Rightarrow>
             (case findByIds deviceList v p of None \<Rightarrow> NoDevice | Some d \<Rightarrow> Selected d)
         | _ \<Rightarrow> NoDevice)
      else if truthy vid then
        (case vid of Dev d \<Rightarrow> Selected d | Num n \<Rightarrow> NotADevice n | Absent \<Rightarrow> NoDevice)
      else
        (case findPrinter deviceList of [] \<Rightarrow> NoDevice | d # ds \<Rightarrow> Selected d))"

text \<open>
  The result of \<open>new USBAdapter(...)\<close>: the exception thrown, or the adapter, which
  holds the selected device or the number.
\<close>

datatype construction = Thrown error | Constructed adapter

definition constructor :: "usb_device list \<Rightarrow> ctor_arg \<Rightarrow> ctor_arg \<Rightarrow> construction" where
  "constructor deviceList vid pid =
     (case select_device deviceList vid pid of
        NoDevice \<Rightarrow> Thrown (Error ''Can not find printer'')
      | Selected d \<Rightarrow> Constructed (new_adapter d)
      | NotADevice n \<Rightarrow> Constructed (new_adapter_on_number n))"

subsection \<open>The detach listener\<close>

text \<open>
  The handler of lines 43 to 49, and the host's notification, which reaches the
  handler only while it is registered. The notified device is a handle; it is never
  equal to \<open>null\<close> or to a number.
\<close>

definition on_detach :: "usb_device \<Rightarrow> adapter \<Rightarrow> adapter" where
  "on_detach dev a =
     (if Some (Handle dev) = device a then
        (log (Emit (Disconnect dev)) (log (Emit (Detach dev)) a))\<lparr>device := None\<rparr>
      else a)"

definition usb_detach :: "usb_device \<Rightarrow> adapter \<Rightarrow> adapter" where
  "usb_detach dev a = (if listening a then on_detach dev a else a)"

subsection \<open>open\<close>

text \<open>
  The synchronous part of \<open>open\<close>, lines 83 to 86 and 127: \<open>this.device.open()\<close> is not
  inside any \<open>try\<close>, so a null device reference, a number in the device field (both a
  \<open>TypeError\<close>) and a failing host-level open all leave \<open>open\<close> as exceptions. Then every
  interface is asked to set its alternate setting, which schedules the per-interface
  callback.
\<close>

definition open_sync :: "open_callback \<Rightarrow> adapter \<Rightarrow> error option \<times> adapter" where
  "open_sync cb a =
     (case device a of
        None \<Rightarrow> (Some (TypeError ''Cannot read properties of null (reading open)''), a)
      | Some (Number n) \<Rightarrow> (Some (TypeError ''this.device.open is not a function''), a)
      | Some (Handle d) \<Rightarrow>
          (let a1 = log (HostDeviceOpen d) a in
           case open_error d of
             Some err \<Rightarrow> (Some err, a1)
           | None \<Rightarrow> (None, foldl (\<lambda>s i. log (HostSetAltSetting i) s) a1 (interfaces d))))"

text \<open>Lines 92 to 101: the kernel driver, skipped on \<open>win32\<close>.\<close>

definition kernel_driver_step ::
  "string \<Rightarrow> usb_interface \<Rightarrow> adapter \<Rightarrow> error option \<times> adapter" where
  "kernel_driver_step platform i a =
     (if platform \<noteq> ''win32'' then
        (case isKernelDriverActive i of
           Inl err \<Rightarrow> (Some err, a)
         | Inr active \<Rightarrow>
             if active then
               (let a1 = log (HostDetachKernelDriver i) a in
                case detachKernelDriver i of
                  Some e \<Rightarrow> (None, log (ConsoleError e) a1)
                | None \<Rightarrow> (None, a1))
             else (None, a))
      else (None, a))"

text \<open>Lines 103 to 109: the first endpoint of each direction is kept.\<close>

definition bind_endpoint :: "adapter \<Rightarrow> usb_endpoint \<Rightarrow> adapter" where
  "bind_endpoint a ep =
     (let a1 = (if direction ep = ''out'' \<and> endpoint a = None
                then a\<lparr>endpoint := Some ep\<rparr> else a)
      in if direction ep = ''in'' \<and> deviceToPcEndpoint a1 = None
         then a1\<lparr>deviceToPcEndpoint := Some ep\<rparr> else a1)"

definition bind_endpoints :: "adapter \<Rightarrow> usb_endpoint list \<Rightarrow> adapter" where
  "bind_endpoints a eps = foldl bind_endpoint a eps"

text \<open>
  Lines 110 to 116, after the endpoints are classified. \<open>++counter\<close> is evaluated
  before \<open>self.device.interfaces.length\<close>, which throws when the device reference has
  been cleared meanwhile (and when the device field holds a number, whose \<open>interfaces\<close>
  is \<open>undefined\<close>). Both calls of the callback are inside the \<open>try\<close>: what the callback
  throws is an exception of the body.
\<close>

definition completion_step ::
  "open_callback \<Rightarrow> adapter \<times> nat \<Rightarrow> error option \<times> adapter \<times> nat" where
  "completion_step cb s =
     (case s of (a, counter) \<Rightarrow>
        if endpoint a \<noteq> None then
          (case call_open_callback cb None (log (Emit (Connect (device a))) a) of
             (thrown, a1) \<Rightarrow> (thrown, a1, counter))
        else
          (let counter' = counter + 1 in
           case device a of
             None \<Rightarrow>
               (Some (TypeError ''Cannot read properties of null (reading interfaces)''),
                a, counter')
           | Some (Number n) \<Rightarrow>
               (Some (TypeError ''Cannot read properties of undefined (reading length)''),
                a, counter')
           | Some (Handle d) \<Rightarrow>
               if counter' = length (interfaces d) \<and> endpoint a = None then
                 (case call_open_callback cb
                         (Some (Error ''Can not find endpoint from printer'')) a of
                    (thrown, a1) \<Rightarrow> (thrown, a1, counter'))
               else (None, a, counter')))"

text \<open>The body of the \<open>try\<close>, lines 89 to 117.\<close>

definition try_body ::
  "string \<Rightarrow> open_callback \<Rightarrow> usb_interface \<Rightarrow> adapter \<times> nat \<Rightarrow>
   error option \<times> adapter \<times> nat" where
  "try_body platform cb i s =
     (case s of (a, counter) \<Rightarrow>
        (case kernel_driver_step platform i a of
           (Some err, a1) \<Rightarrow> (Some err, a1, counter)
         | (None, a1) \<Rightarrow>
             (let a2 = log (HostClaim i) a1 in
              case claim i of
                Some err \<Rightarrow> (Some err, a2, counter)
              | None \<Rightarrow> completion_step cb (bind_endpoints a2 (endpoints i), counter))))"

text \<open>
  The callback passed to \<open>setAltSetting\<close>, lines 88 to 124: the \<open>catch\<close> hands every
  exception of the body to the callback of \<open>open\<close>, also the one the callback itself threw
  in the body. What the callback throws inside the \<open>catch\<close> is caught by nobody: it
  leaves the per-interface callback and reaches the event loop.
\<close>

definition iface_callback ::
  "string \<Rightarrow> open_callback \<Rightarrow> usb_interface \<Rightarrow> adapter \<times> nat \<Rightarrow> adapter \<times> nat" where
  "iface_callback platform cb i s =
     (case try_body platform cb i s of
        (None, a, counter) \<Rightarrow> (a, counter)
      | (Some err, a, counter) \<Rightarrow>
          (case call_open_callback cb (Some err) a of
             (None, a1) \<Rightarrow> (a1, counter)
           | (Some e, a1) \<Rightarrow> (log (Uncaught e) a1, counter)))"

text \<open>
  What the event loop delivers after \<open>open\<close> has returned: completions of
  \<open>setAltSetting\<close>, in any order, possibly interleaved with detach notifications. The
  counter is the local variable of that call of \<open>open\<close>. An uncaught exception is
  recorded in the trace; the list holds the events that are delivered, whatever the
  process does about the exception.
\<close>

datatype loop_event = AltSettingDone usb_interface | HostDetach usb_device

fun run_loop ::
  "string \<Rightarrow> open_callback \<Rightarrow> loop_event list \<Rightarrow> adapter \<times> nat \<Rightarrow> adapter \<times> nat" where
  "run_loop platform cb [] s = s"
| "run_loop platform cb (AltSettingDone i # es) s =
     run_loop platform cb es (iface_callback platform cb i s)"
| "run_loop platform cb (HostDetach d # es) s =
     run_loop platform cb es (usb_detach d (fst s), snd s)"

text \<open>\<open>open\<close> followed by the events the loop delivers for it.\<close>

definition open_then ::
  "string \<Rightarrow> open_callback \<Rightarrow> loop_event list \<Rightarrow> adapter \<Rightarrow> error option \<times> adapter" where
  "open_then platform cb es a =
     (case open_sync cb a of
        (Some err, a1) \<Rightarrow> (Some err, a1)
      | (None, a1) \<Rightarrow> (None, fst (run_loop platform cb es (a1, 0))))"

subsection \<open>write and close\<close>

text \<open>
  \<open>write\<close>, lines 136 to 140 (\<open>write\<close> is a keyword of Isabelle, hence the suffix). \<open>result\<close> is what the host's bulk transfer hands to the
  callback it was given (\<open>None\<close>: the transfer succeeded). Reading \<open>transfer\<close> of an
  unset endpoint throws.
\<close>

definition write_usb :: "payload \<Rightarrow> bool \<Rightarrow> error option \<Rightarrow> adapter \<Rightarrow> error option \<times> adapter" where
  "write_usb data cb result a =
     (let a1 = log (Emit (Data data)) a in
      case endpoint a1 of
        None \<Rightarrow> (Some (TypeError ''Cannot read properties of undefined (reading transfer)''), a1)
      | Some ep \<Rightarrow> (None, invoke cb (WriteCallback result) (log (HostTransfer ep data) a1)))"

text \<open>
  \<open>close\<close>, lines 142 to 154. The first line has no \<open>return\<close>: with a null device
  reference the callback is invoked, and then the \<open>try\<close> is entered all the same.
  The device reference is not cleared by \<open>close\<close>. \<open>!this.device\<close> holds of \<open>null\<close> and
  of the number zero; a number has no \<open>close\<close> method.
\<close>

fun falsy :: "device_value option \<Rightarrow> bool" where
  "falsy None = True"
| "falsy (Some (Number n)) = (n = 0)"
| "falsy (Some (Handle d)) = False"

definition close :: "bool \<Rightarrow> adapter \<Rightarrow> adapter" where
  "close cb a =
     (let a1 = (if falsy (device a) then invoke cb (CloseCallback None) a else a) in
      case device a1 of
        None \<Rightarrow>
          invoke cb (CloseCallback (Some (TypeError ''Cannot read properties of null (reading close)''))) a1
      | Some (Number n) \<Rightarrow>
          invoke cb (CloseCallback (Some (TypeError ''this.device.close is not a function''))) a1
      | Some (Handle d) \<Rightarrow>
          (let a2 = log (HostDeviceClose d) a1 in
           case close_error d of
             Some err \<Rightarrow> invoke cb (CloseCallback (Some err)) a2
           | None \<Rightarrow>
               log (Emit (Close d))
                 (invoke cb (CloseCallback None)
                    ((log HostRemoveAllListeners a2)\<lparr>listening := False\<rparr>))))"

subsection \<open>Vocabulary of the properties\<close>

text \<open>
  The processing of an interface reaches the completion check when neither the
  kernel-driver query nor the claim throws; a failing \<open>detachKernelDriver\<close> is only
  logged and does not count.
\<close>

definition kernel_query_ok :: "string \<Rightarrow> usb_interface \<Rightarrow> bool" where
  "kernel_query_ok platform i =
     (platform = ''win32'' \<or> (case isKernelDriverActive i of Inl err \<Rightarrow> False | Inr b \<Rightarrow> True))"

definition completes :: "string \<Rightarrow> usb_interface \<Rightarrow> bool" where
  "completes platform i = (kernel_query_ok platform i \<and> claim i = None)"

definition has_out :: "usb_interface \<Rightarrow> bool" where
  "has_out i = (find (\<lambda>ep. direction ep = ''out'') (endpoints i) \<noteq> None)"

fun is_connect :: "action \<Rightarrow> bool" where
  "is_connect (Emit (Connect d)) = True"
| "is_connect x = False"

fun is_open_callback :: "action \<Rightarrow> bool" where
  "is_open_callback (OpenCallback r) = True"
| "is_open_callback x = False"

definition connects :: "action list \<Rightarrow> nat" where
  "connects tr = length (filter is_connect tr)"

definition open_callbacks :: "action list \<Rightarrow> action list" where
  "open_callbacks tr = filter is_open_callback tr"




fun ifaces_of :: "loop_event list \<Rightarrow> usb_interface list" where
  "ifaces_of [] = []"
| "ifaces_of (AltSettingDone i # es) = i # ifaces_of es"
| "ifaces_of (HostDetach d # es) = ifaces_of es"

subsection \<open>Concrete devices\<close>

definition ep_out :: usb_endpoint where
  "ep_out = \<lparr>address = 1, direction = ''out''\<rparr>"

definition ep_in :: usb_endpoint where
  "ep_in = \<lparr>address = 129, direction = ''in''\<rparr>"

definition iface_ok :: "nat \<Rightarrow> usb_endpoint list \<Rightarrow> usb_interface" where
  "iface_ok n eps =
     \<lparr>interfaceNumber = n, altSetting = 0, isKernelDriverActive = Inr False,
      detachKernelDriver = None, claim = None, endpoints = eps\<rparr>"

definition iface_busy :: "nat \<Rightarrow> usb_endpoint list \<Rightarrow> usb_interface" where
  "iface_busy n eps = (iface_ok n eps)\<lparr>claim := Some (HostError ''LIBUSB_ERROR_ACCESS'')\<rparr>"

definition printer_with :: "usb_interface list \<Rightarrow> usb_device" where
  "printer_with ifaces =
     \<lparr>busNumber = 1, deviceAddress = 4, idVendor = 0x04b8, idProduct = 0x0202,
      configDescriptor = Descriptor [[\<lparr>bInterfaceClass = 7\<rparr>]],
      open_error = None, close_error = None, interfaces = ifaces\<rparr>"

definition broken_device :: usb_device where
  "broken_device =
     \<lparr>busNumber = 1, deviceAddress = 5, idVendor = 0x1d6b, idProduct = 0x0002,
      configDescriptor = DescriptorThrows (HostError ''LIBUSB_ERROR_IO''),
      open_error = None, close_error = None, interfaces = []\<rparr>"

definition hub_device :: usb_device where
  "hub_device =
     \<lparr>busNumber = 1, deviceAddress = 1, idVendor = 0x1d6b, idProduct = 0x0003,
      configDescriptor = Descriptor [[\<lparr>bInterfaceClass = 9\<rparr>]],
      open_error = None, close_error = None, interfaces = []\<rparr>"

definition printer_out_then_plain :: usb_device where
  "printer_out_then_plain = printer_with [iface_ok 0 [ep_out, ep_in], iface_ok 1 []]"

definition printer_out_then_busy :: usb_device where
  "printer_out_then_busy =
     printer_with [iface_ok 0 [ep_out, ep_in], iface_ok 1 [], iface_busy 2 []]"

definition printer_busy_then_in :: usb_device where
  "printer_busy_then_in = printer_with [iface_busy 0 [], iface_ok 1 [ep_in]]"

definition printer_in_only :: usb_device where
  "printer_in_only = printer_with [iface_ok 0 [ep_in]]"

definition printer_three_no_out :: usb_device where
  "printer_three_no_out = printer_with [iface_ok 0 [ep_in], iface_ok 1 [], iface_ok 2 [ep_in]]"

text \<open>A callback that never throws, and one that throws whatever error it is handed.\<close>

definition quiet_callback :: open_callback where
  "quiet_callback = Some (\<lambda>r tr. None)"

definition rethrowing_callback :: open_callback where
  "rethrowing_callback = Some (\<lambda>r tr. r)"

definition unopenable_printer :: usb_device where
  "unopenable_printer = (printer_with [])\<lparr>open_error := Some (HostError ''LIBUSB_ERROR_ACCESS'')\<rparr>"

section \<open>Properties\<close>

lemmas example_defs =
  ep_out_def ep_in_def iface_ok_def iface_busy_def printer_with_def broken_device_def
  hub_device_def printer_out_then_plain_def printer_out_then_busy_def
  printer_busy_then_in_def printer_in_only_def unopenable_printer_def

subsection \<open>Device selection\<close>

lemma findPrinter_keep_iff: "findPrinter_keep d = exposes_printer_interface d"
  by (auto simp: findPrinter_keep_def exposes_printer_interface_def printer_interfaces_def
      printer_settings_def IFACE_CLASS_PRINTER_def filter_empty_conv
      split: config_descriptor.splits)

text \<open>
  Claim C6. \<open>findPrinter\<close> returns exactly the attached devices that expose at least one
  interface whose class code is \<open>PRINTER\<close> (0x07), in enumeration order; construction
  without arguments selects the first of them, or fails when there is none; a device
  whose descriptor throws on inspection is never among the candidates, and nothing is
  raised to the caller.
\<close>

theorem findPrinter_exactly_printers:
  "findPrinter deviceList = filter exposes_printer_interface deviceList \<and>
   constructor deviceList Absent Absent =
     (case filter exposes_printer_interface deviceList of
        [] \<Rightarrow> Thrown (Error ''Can not find printer'')
      | d # ds \<Rightarrow> Constructed (new_adapter d)) \<and>
   (\<forall>d \<in> set (findPrinter deviceList). \<forall>e. configDescriptor d \<noteq> DescriptorThrows e)"
proof -
  have eq: "findPrinter deviceList = filter exposes_printer_interface deviceList"
    unfolding findPrinter_def using findPrinter_keep_iff by (metis (no_types) filter_cong)
  have ctor: "constructor deviceList Absent Absent =
     (case filter exposes_printer_interface deviceList of
        [] \<Rightarrow> Thrown (Error ''Can not find printer'')
      | d # ds \<Rightarrow> Constructed (new_adapter d))"
    by (simp add: constructor_def select_device_def eq split: list.splits)
  have excl: "\<forall>d \<in> set (findPrinter deviceList). \<forall>e. configDescriptor d \<noteq> DescriptorThrows e"
    by (auto simp: eq exposes_printer_interface_def)
  from eq ctor excl show ?thesis by blast
qed

theorem findPrinter_exactly_printers_witness:
  "findPrinter [hub_device, broken_device, printer_with []] = [printer_with []] \<and>
   constructor [hub_device, broken_device, printer_with []] Absent Absent =
     Constructed (new_adapter (printer_with []))"
  using findPrinter_exactly_printers [of "[hub_device, broken_device, printer_with []]"]
  by (simp add: exposes_printer_interface_def example_defs)

text \<open>
  Claim C9. When no attached device has the vendor and product id asked for,
  \<open>getDevice\<close> resolves its promise with \<open>undefined\<close>; it does not reject.
\<close>

theorem getDevice_no_match:
  "\<forall>d \<in> set deviceList. \<not> (idVendor d = vid \<and> idProduct d = pid) \<Longrightarrow>
   getDevice deviceList vid pid = Resolved None"
proof -
  assume "\<forall>d \<in> set deviceList. \<not> (idVendor d = vid \<and> idProduct d = pid)"
  then have "findByIds deviceList vid pid = None"
    unfolding findByIds_def find_None_iff by blast
  then show ?thesis by (simp add: getDevice_def)
qed

theorem getDevice_no_match_witness:
  "getDevice [hub_device, printer_with []] 0x04b8 0x0e15 = Resolved None"
  using getDevice_no_match [of "[hub_device, printer_with []]" "0x04b8" "0x0e15"]
  by (simp add: example_defs)

subsection \<open>write\<close>

text \<open>
  Claim C8. On an adapter with a bound write endpoint, \<open>write(buf, callback)\<close> whose bulk
  transfer succeeds emits a "data" event carrying exactly \<open>buf\<close>, then performs the
  transfer of \<open>buf\<close> on the bound endpoint, then the callback is invoked with no error;
  nothing else happens and \<open>write\<close> does not throw.
\<close>

theorem write_emits_data_then_transfers:
  "endpoint a = Some ep \<Longrightarrow>
   write_usb buf True None a =
     (None, a\<lparr>trace := trace a @ [Emit (Data buf), HostTransfer ep buf, WriteCallback None]\<rparr>)"
  by (simp add: write_usb_def log_def invoke_def)

theorem write_emits_data_then_transfers_witness:
  "trace (snd (write_usb (Buf [27, 64]) True None
      ((new_adapter (printer_with []))\<lparr>endpoint := Some ep_out\<rparr>))) =
     [Emit (Data (Buf [27, 64])), HostTransfer ep_out (Buf [27, 64]), WriteCallback None]"
  using write_emits_data_then_transfers
    [of "(new_adapter (printer_with []))\<lparr>endpoint := Some ep_out\<rparr>" ep_out "Buf [27, 64]"]
  by (simp add: new_adapter_def)

text \<open>
  Claim C10. On an adapter with no write endpoint bound, \<open>write(data, callback)\<close> emits the
  "data" event carrying the payload and then throws a \<open>TypeError\<close> synchronously; the
  callback is not invoked at all (the trace gains the event and nothing else), whatever
  the host would have answered.
\<close>

theorem write_unbound_throws:
  "endpoint a = None \<Longrightarrow>
   write_usb buf cb result a =
     (Some (TypeError ''Cannot read properties of undefined (reading transfer)''),
      a\<lparr>trace := trace a @ [Emit (Data buf)]\<rparr>)"
  by (simp add: write_usb_def log_def)

theorem write_unbound_throws_witness:
  "write_usb (Str ''hello'') True None (new_adapter (printer_with [])) =
     (Some (TypeError ''Cannot read properties of undefined (reading transfer)''),
      (new_adapter (printer_with []))\<lparr>trace := [Emit (Data (Str ''hello''))]\<rparr>)"
  using write_unbound_throws [of "new_adapter (printer_with [])" "Str ''hello''" True None]
  by (simp add: new_adapter_def)

subsection \<open>The per-interface callback, step by step\<close>

lemma log_fields:
  "trace (log x a) = trace a @ [x]" "device (log x a) = device a"
  "endpoint (log x a) = endpoint a" "deviceToPcEndpoint (log x a) = deviceToPcEndpoint a"
  "listening (log x a) = listening a"
  by (simp_all add: log_def)

lemma invoke_fields:
  "trace (invoke cb x a) = (if cb then trace a @ [x] else trace a)"
  "device (invoke cb x a) = device a" "endpoint (invoke cb x a) = endpoint a"
  "deviceToPcEndpoint (invoke cb x a) = deviceToPcEndpoint a"
  "listening (invoke cb x a) = listening a"
  by (simp_all add: invoke_def log_fields)

lemma call_open_callback_fields:
  "trace (snd (call_open_callback cb r a)) =
     trace a @ (case cb of None \<Rightarrow> [] | Some f \<Rightarrow> [OpenCallback r])"
  "device (snd (call_open_callback cb r a)) = device a"
  "endpoint (snd (call_open_callback cb r a)) = endpoint a"
  "deviceToPcEndpoint (snd (call_open_callback cb r a)) = deviceToPcEndpoint a"
  "listening (snd (call_open_callback cb r a)) = listening a"
  "connects (trace (snd (call_open_callback cb r a))) = connects (trace a)"
  by (simp_all add: call_open_callback_def log_fields connects_def split: option.splits)

lemma call_open_callback_some:
  "call_open_callback (Some f) r a = (f r (trace a), log (OpenCallback r) a)"
  by (simp add: call_open_callback_def)

lemma bind_endpoint_fields:
  "trace (bind_endpoint a ep) = trace a" "device (bind_endpoint a ep) = device a"
  "listening (bind_endpoint a ep) = listening a"
  "endpoint (bind_endpoint a ep) =
     (case endpoint a of Some e \<Rightarrow> Some e
      | None \<Rightarrow> if direction ep = ''out'' then Some ep else None)"
  by (simp_all add: bind_endpoint_def Let_def split: option.splits)

lemma bind_endpoints_fields:
  "trace (bind_endpoints a eps) = trace a" "device (bind_endpoints a eps) = device a"
  "listening (bind_endpoints a eps) = listening a"
  "endpoint (bind_endpoints a eps) =
     (case endpoint a of Some e \<Rightarrow> Some e
      | None \<Rightarrow> find (\<lambda>ep. direction ep = ''out'') eps)"
  unfolding bind_endpoints_def
  by (induction eps arbitrary: a; simp add: bind_endpoint_fields split: option.splits)+

lemma kernel_driver_step_fields:
  "(fst (kernel_driver_step platform i a) = None) = kernel_query_ok platform i"
  "device (snd (kernel_driver_step platform i a)) = device a"
  "endpoint (snd (kernel_driver_step platform i a)) = endpoint a"
  "listening (snd (kernel_driver_step platform i a)) = listening a"
  "connects (trace (snd (kernel_driver_step platform i a))) = connects (trace a)"
  "open_callbacks (trace (snd (kernel_driver_step platform i a))) = open_callbacks (trace a)"
  by (simp_all add: kernel_driver_step_def kernel_query_ok_def Let_def log_fields
      connects_def open_callbacks_def split: sum.splits option.splits)




lemma completion_step_unbound:
  "endpoint a = None \<Longrightarrow> device a = Some (Handle d) \<Longrightarrow>
   completion_step cb (a, c) =
     (if Suc c = length (interfaces d)
      then (fst (call_open_callback cb (Some (Error ''Can not find endpoint from printer'')) a),
            snd (call_open_callback cb (Some (Error ''Can not find endpoint from printer'')) a),
            Suc c)
      else (None, a, Suc c))"
  by (simp add: completion_step_def split: prod.splits)

lemma completion_step_fields:
  "endpoint (fst (snd (completion_step cb (a, c)))) = endpoint a"
  "listening (fst (snd (completion_step cb (a, c)))) = listening a"
  "device (fst (snd (completion_step cb (a, c)))) = device a"
  "connects (trace (fst (snd (completion_step cb (a, c))))) =
     connects (trace a) + (if endpoint a \<noteq> None then 1 else 0)"
  by (simp_all add: completion_step_def Let_def call_open_callback_def log_fields connects_def
      split: option.splits device_value.splits prod.splits)

lemma try_body_split:
  "try_body platform cb i (a, c) =
     (if \<not> kernel_query_ok platform i
      then (fst (kernel_driver_step platform i a), snd (kernel_driver_step platform i a), c)
      else case claim i of
             Some err \<Rightarrow> (Some err, log (HostClaim i) (snd (kernel_driver_step platform i a)), c)
           | None \<Rightarrow>
               completion_step cb
                 (bind_endpoints (log (HostClaim i) (snd (kernel_driver_step platform i a)))
                    (endpoints i), c))"
proof (cases "kernel_driver_step platform i a")
  case (Pair r a1)
  with kernel_driver_step_fields(1) [of platform i a] show ?thesis
    by (cases r) (simp_all add: try_body_def Let_def split: option.splits)
qed

lemma iface_callback_catch:
  "iface_callback platform cb i s =
     (case try_body platform cb i s of
        (thrown, a, counter) \<Rightarrow>
          (case thrown of
             None \<Rightarrow> (a, counter)
           | Some err \<Rightarrow>
               (case fst (call_open_callback cb (Some err) a) of
                  None \<Rightarrow> (snd (call_open_callback cb (Some err) a), counter)
                | Some e \<Rightarrow> (log (Uncaught e) (snd (call_open_callback cb (Some err) a)), counter))))"
  by (simp add: iface_callback_def split: prod.splits option.splits)

lemma iface_callback_not_completes:
  assumes "\<not> completes platform i"
  shows "endpoint (fst (iface_callback platform cb i (a, c))) = endpoint a"
    and "device (fst (iface_callback platform cb i (a, c))) = device a"
    and "listening (fst (iface_callback platform cb i (a, c))) = listening a"
    and "snd (iface_callback platform cb i (a, c)) = c"
    and "connects (trace (fst (iface_callback platform cb i (a, c)))) = connects (trace a)"
proof -
  obtain r a1 where k: "kernel_driver_step platform i a = (r, a1)"
    by (cases "kernel_driver_step platform i a")
  have f: "(r = None) = kernel_query_ok platform i"
       "device a1 = device a" "endpoint a1 = endpoint a" "listening a1 = listening a"
       "connects (trace a1) = connects (trace a)"
    using kernel_driver_step_fields [of platform i a] by (simp_all add: k)
  show "endpoint (fst (iface_callback platform cb i (a, c))) = endpoint a"
    and "device (fst (iface_callback platform cb i (a, c))) = device a"
    and "listening (fst (iface_callback platform cb i (a, c))) = listening a"
    and "snd (iface_callback platform cb i (a, c)) = c"
    and "connects (trace (fst (iface_callback platform cb i (a, c)))) = connects (trace a)"
    using assms f
    by (auto simp: iface_callback_catch try_body_split k completes_def call_open_callback_fields
        log_fields connects_def split: option.splits)
qed

lemma iface_callback_completes:
  assumes "completes platform i"
  shows "endpoint (fst (iface_callback platform cb i (a, c))) =
           (case endpoint a of Some e \<Rightarrow> Some e
            | None \<Rightarrow> find (\<lambda>ep. direction ep = ''out'') (endpoints i))"
    and "listening (fst (iface_callback platform cb i (a, c))) = listening a"
    and "connects (trace (fst (iface_callback platform cb i (a, c)))) =
           connects (trace a) + (if endpoint a \<noteq> None \<or> has_out i then 1 else 0)"
proof -
  define a2 where "a2 = bind_endpoints (log (HostClaim i) (snd (kernel_driver_step platform i a))) (endpoints i)"
  have f: "device a2 = device a" "listening a2 = listening a"
       "connects (trace a2) = connects (trace a)"
       "endpoint a2 = (case endpoint a of Some e \<Rightarrow> Some e
            | None \<Rightarrow> find (\<lambda>ep. direction ep = ''out'') (endpoints i))"
    using kernel_driver_step_fields [of platform i a]
    by (simp_all add: a2_def bind_endpoints_fields log_fields connects_def)
  obtain thrown a3 c3 where cs: "completion_step cb (a2, c) = (thrown, a3, c3)"
    by (cases "completion_step cb (a2, c)")
  from completion_step_fields [of cb a2 c]
  have g: "endpoint a3 = endpoint a2" "listening a3 = listening a2"
    "connects (trace a3) = connects (trace a2) + (if endpoint a2 \<noteq> None then 1 else 0)"
    by (simp_all add: cs)
  have tb: "try_body platform cb i (a, c) = (thrown, a3, c3)"
    using assms by (simp add: try_body_split completes_def a2_def [symmetric] cs)
  show "endpoint (fst (iface_callback platform cb i (a, c))) =
           (case endpoint a of Some e \<Rightarrow> Some e
            | None \<Rightarrow> find (\<lambda>ep. direction ep = ''out'') (endpoints i))"
    unfolding f(4) [symmetric] g(1) [symmetric]
    by (simp add: iface_callback_catch tb call_open_callback_fields log_fields
        split: option.splits)
  show "listening (fst (iface_callback platform cb i (a, c))) = listening a"
    unfolding f(2) [symmetric] g(2) [symmetric]
    by (simp add: iface_callback_catch tb call_open_callback_fields log_fields
        split: option.splits)
  have "connects (trace (fst (iface_callback platform cb i (a, c)))) = connects (trace a3)"
    using call_open_callback_fields(6)
    by (simp add: iface_callback_catch tb log_fields connects_def split: option.splits)
  then show "connects (trace (fst (iface_callback platform cb i (a, c)))) =
           connects (trace a) + (if endpoint a \<noteq> None \<or> has_out i then 1 else 0)"
    by (simp add: f g has_out_def split: option.splits)
qed

lemma iface_callback_no_out:
  assumes "completes platform i" and "\<not> has_out i" and "device a = Some (Handle d)"
    and "endpoint a = None"
    and "\<forall>tr. f (Some (Error ''Can not find endpoint from printer'')) tr = None"
  shows "snd (iface_callback platform (Some f) i (a, c)) = Suc c"
    and "device (fst (iface_callback platform (Some f) i (a, c))) = Some (Handle d)"
    and "endpoint (fst (iface_callback platform (Some f) i (a, c))) = None"
    and "open_callbacks (trace (fst (iface_callback platform (Some f) i (a, c)))) =
           open_callbacks (trace a) @
           (if Suc c = length (interfaces d)
            then [OpenCallback (Some (Error ''Can not find endpoint from printer''))] else [])"
    and "Suc c = length (interfaces d) \<Longrightarrow>
         last (trace (fst (iface_callback platform (Some f) i (a, c)))) =
           OpenCallback (Some (Error ''Can not find endpoint from printer''))"
proof -
  define a2 where "a2 = bind_endpoints (log (HostClaim i) (snd (kernel_driver_step platform i a))) (endpoints i)"
  have f: "device a2 = Some (Handle d)" "endpoint a2 = None"
       "open_callbacks (trace a2) = open_callbacks (trace a)"
    using kernel_driver_step_fields [of platform i a] assms(1-4)
    by (simp_all add: a2_def bind_endpoints_fields log_fields open_callbacks_def has_out_def)
  have tb: "try_body platform (Some f) i (a, c) =
     (None,
      (if Suc c = length (interfaces d)
       then log (OpenCallback (Some (Error ''Can not find endpoint from printer''))) a2
       else a2), Suc c)"
    using assms(1,5) completion_step_unbound [OF f(2) f(1), of "Some f" c]
    by (simp add: try_body_split completes_def a2_def call_open_callback_some)
  have ic: "iface_callback platform (Some f) i (a, c) =
     ((if Suc c = length (interfaces d)
       then log (OpenCallback (Some (Error ''Can not find endpoint from printer''))) a2
       else a2), Suc c)"
    by (simp add: iface_callback_catch tb)
  show "snd (iface_callback platform (Some f) i (a, c)) = Suc c"
    by (simp add: ic)
  show "device (fst (iface_callback platform (Some f) i (a, c))) = Some (Handle d)"
    by (simp add: ic f log_fields)
  show "endpoint (fst (iface_callback platform (Some f) i (a, c))) = None"
    by (simp add: ic f log_fields)
  show "open_callbacks (trace (fst (iface_callback platform (Some f) i (a, c)))) =
           open_callbacks (trace a) @
           (if Suc c = length (interfaces d)
            then [OpenCallback (Some (Error ''Can not find endpoint from printer''))] else [])"
    using f(3) by (simp add: ic log_fields open_callbacks_def)
  show "Suc c = length (interfaces d) \<Longrightarrow>
         last (trace (fst (iface_callback platform (Some f) i (a, c)))) =
           OpenCallback (Some (Error ''Can not find endpoint from printer''))"
    using ic by (simp add: log_fields)
qed

lemma usb_detach_fields:
  "endpoint (usb_detach d a) = endpoint a" "listening (usb_detach d a) = listening a"
  "connects (trace (usb_detach d a)) = connects (trace a)"
  by (simp_all add: usb_detach_def on_detach_def log_fields connects_def)

subsection \<open>The event loop\<close>

lemma run_loop_connects_bound:
  "endpoint a \<noteq> None \<Longrightarrow>
   connects (trace (fst (run_loop platform cb es (a, c)))) =
     connects (trace a) + length (filter (completes platform) (ifaces_of es))"
proof (induction es arbitrary: a c)
  case Nil
  then show ?case by simp
next
  case (Cons e es)
  show ?case
  proof (cases e)
    case (AltSettingDone i)
    obtain a' c' where step: "iface_callback platform cb i (a, c) = (a', c')"
      by (cases "iface_callback platform cb i (a, c)")
    have "endpoint a' \<noteq> None \<and>
          connects (trace a') = connects (trace a) + (if completes platform i then 1 else 0)"
    proof (cases "completes platform i")
      case True
      from iface_callback_completes(1,3) [OF True, of cb a c] Cons.prems step True show ?thesis
        by (auto split: option.splits)
    next
      case False
      from iface_callback_not_completes(1,5) [OF False, of cb a c] Cons.prems step False
      show ?thesis by simp
    qed
    with Cons.IH [of a' c'] AltSettingDone step show ?thesis by simp
  next
    case (HostDetach d)
    with Cons.IH [of "usb_detach d a" c] Cons.prems show ?thesis
      by (simp add: usb_detach_fields)
  qed
qed

lemma run_loop_connects_unbound:
  "endpoint a = None \<Longrightarrow>
   connects (trace (fst (run_loop platform cb es (a, c)))) =
     connects (trace a) +
     length (filter (completes platform)
       (dropWhile (\<lambda>i. \<not> (completes platform i \<and> has_out i)) (ifaces_of es)))"
proof (induction es arbitrary: a c)
  case Nil
  then show ?case by simp
next
  case (Cons e es)
  show ?case
  proof (cases e)
    case (AltSettingDone i)
    obtain a' c' where step: "iface_callback platform cb i (a, c) = (a', c')"
      by (cases "iface_callback platform cb i (a, c)")
    show ?thesis
    proof (cases "completes platform i \<and> has_out i")
      case True
      then have comp: "completes platform i" and out: "has_out i" by simp_all
      from iface_callback_completes(1,3) [OF comp, of cb a c] Cons.prems step out
      have "endpoint a' \<noteq> None" "connects (trace a') = connects (trace a) + 1"
        by (auto simp: has_out_def)
      with run_loop_connects_bound [of a' platform cb es c'] AltSettingDone step True
      show ?thesis by simp
    next
      case False
      have "endpoint a' = None \<and> connects (trace a') = connects (trace a)"
      proof (cases "completes platform i")
        case True
        with False have "\<not> has_out i" by simp
        with iface_callback_completes(1,3) [OF True, of cb a c] Cons.prems step show ?thesis
          by (simp add: has_out_def)
      next
        case nc: False
        from iface_callback_not_completes(1,5) [OF nc, of cb a c] Cons.prems step show ?thesis
          by simp
      qed
      with Cons.IH [of a' c'] AltSettingDone step False show ?thesis by simp
    qed
  next
    case (HostDetach d)
    with Cons.IH [of "usb_detach d a" c] Cons.prems show ?thesis
      by (simp add: usb_detach_fields)
  qed
qed

lemma run_loop_no_out:
  assumes "\<forall>i \<in> set xs. completes platform i \<and> \<not> has_out i"
    and "device a = Some (Handle d)" and "endpoint a = None"
    and "\<forall>tr. f (Some (Error ''Can not find endpoint from printer'')) tr = None"
  shows "open_callbacks (trace (fst (run_loop platform (Some f) (map AltSettingDone xs) (a, c)))) =
           open_callbacks (trace a) @
           (if c < length (interfaces d) \<and> length (interfaces d) \<le> c + length xs
            then [OpenCallback (Some (Error ''Can not find endpoint from printer''))] else [])"
  using assms
proof (induction xs arbitrary: a c)
  case Nil
  then show ?case by simp
next
  case (Cons x xs)
  obtain a' c' where step: "iface_callback platform (Some f) x (a, c) = (a', c')"
    by (cases "iface_callback platform (Some f) x (a, c)")
  from Cons.prems have x: "completes platform x" "\<not> has_out x"
    and rest: "\<forall>i \<in> set xs. completes platform i \<and> \<not> has_out i" by simp_all
  from iface_callback_no_out [where f=f and c=c, OF x Cons.prems(2,3,4), unfolded step]
  have s: "c' = Suc c" "device a' = Some (Handle d)" "endpoint a' = None"
    "open_callbacks (trace a') = open_callbacks (trace a) @
       (if Suc c = length (interfaces d)
        then [OpenCallback (Some (Error ''Can not find endpoint from printer''))] else [])"
    by simp_all
  from Cons.IH [OF rest s(2,3) Cons.prems(4), of c'] s(1,4) step show ?case
    by auto
qed

lemma run_loop_no_out_last:
  assumes "\<forall>i \<in> set xs. completes platform i \<and> \<not> has_out i"
    and "device a = Some (Handle d)" and "endpoint a = None"
    and "xs \<noteq> []" and "c + length xs = length (interfaces d)"
    and "\<forall>tr. f (Some (Error ''Can not find endpoint from printer'')) tr = None"
  shows "last (trace (fst (run_loop platform (Some f) (map AltSettingDone xs) (a, c)))) =
           OpenCallback (Some (Error ''Can not find endpoint from printer''))"
  using assms
proof (induction xs arbitrary: a c)
  case Nil
  then show ?case by simp
next
  case (Cons x xs)
  obtain a' c' where step: "iface_callback platform (Some f) x (a, c) = (a', c')"
    by (cases "iface_callback platform (Some f) x (a, c)")
  from Cons.prems have x: "completes platform x" "\<not> has_out x"
    and rest: "\<forall>i \<in> set xs. completes platform i \<and> \<not> has_out i" by simp_all
  from iface_callback_no_out [where f=f and c=c, OF x Cons.prems(2,3,6), unfolded step]
  have s: "c' = Suc c" "device a' = Some (Handle d)" "endpoint a' = None"
    "Suc c = length (interfaces d) \<Longrightarrow>
       last (trace a') = OpenCallback (Some (Error ''Can not find endpoint from printer''))"
    by simp_all
  show ?case
  proof (cases xs)
    case Nil
    with Cons.prems(5) s(4) step show ?thesis by simp
  next
    case (Cons y ys)
    then have ne: "xs \<noteq> []" by simp
    from Cons.prems(5) s(1) have len: "c' + length xs = length (interfaces d)" by simp
    from Cons.IH [OF rest s(2,3) ne len Cons.prems(6)] step show ?thesis by simp
  qed
qed

lemma ifaces_of_map: "ifaces_of (map AltSettingDone xs) = xs"
  by (induction xs) simp_all

lemma schedule_alt_settings:
  "foldl (\<lambda>s i. log (HostSetAltSetting i) s) a xs = a\<lparr>trace := trace a @ map HostSetAltSetting xs\<rparr>"
  by (induction xs arbitrary: a) (simp_all add: log_def)

lemma open_sync_fields:
  "endpoint (snd (open_sync cb a)) = endpoint a"
  "device (snd (open_sync cb a)) = device a"
  "listening (snd (open_sync cb a)) = listening a"
  "connects (trace (snd (open_sync cb a))) = connects (trace a)"
  "open_callbacks (trace (snd (open_sync cb a))) = open_callbacks (trace a)"
  by (simp_all add: open_sync_def Let_def schedule_alt_settings log_fields connects_def
      open_callbacks_def filter_empty_conv split: option.splits device_value.splits)

lemma open_sync_throws:
  "fst (open_sync cb a) =
     (case device a of
        None \<Rightarrow> Some (TypeError ''Cannot read properties of null (reading open)'')
      | Some (Number n) \<Rightarrow> Some (TypeError ''this.device.open is not a function'')
      | Some (Handle d) \<Rightarrow> open_error d)"
  by (simp add: open_sync_def Let_def split: option.splits device_value.splits)

lemma open_then_split:
  "open_then platform cb es a =
     (if fst (open_sync cb a) = None
      then (None, fst (run_loop platform cb es (snd (open_sync cb a), 0)))
      else open_sync cb a)"
  by (cases "open_sync cb a") (auto simp: open_then_def split: option.splits)

lemma open_throws_on_detached:
  "device a = None \<Longrightarrow>
   open_then platform cb es a =
     (Some (TypeError ''Cannot read properties of null (reading open)''), a)"
  by (simp add: open_then_def open_sync_def)

lemma open_throws_on_host_failure:
  "device a = Some (Handle d) \<Longrightarrow> open_error d = Some err \<Longrightarrow>
   open_then platform cb es a = (Some err, log (HostDeviceOpen d) a)"
  by (simp add: open_then_def open_sync_def)

lemmas run_defs =
  open_then_def open_sync_def iface_callback_def try_body_def kernel_driver_step_def
  completion_step_def bind_endpoints_def bind_endpoint_def call_open_callback_def invoke_def
  log_def new_adapter_def new_adapter_on_number_def usb_detach_def on_detach_def close_def
  quiet_callback_def rethrowing_callback_def

subsection \<open>open\<close>

text \<open>
  Claim C4, evaluated. \<open>open()\<close> does not deliver every failure through its callback:
  on an adapter whose device reference was cleared it throws a \<open>TypeError\<close>
  synchronously, on a device whose host-level open fails it throws the host's error
  synchronously, and on the adapter that \<open>new USBAdapter(1208)\<close> constructs it throws a
  \<open>TypeError\<close> synchronously; in none of the three cases is the callback invoked.
\<close>

theorem open_throws_synchronously:
  "open_then ''linux'' quiet_callback [] ((new_adapter (printer_with []))\<lparr>device := None\<rparr>) =
     (Some (TypeError ''Cannot read properties of null (reading open)''),
      (new_adapter (printer_with []))\<lparr>device := None\<rparr>) \<and>
   open_then ''linux'' quiet_callback [] (new_adapter unopenable_printer) =
     (Some (HostError ''LIBUSB_ERROR_ACCESS''),
      (new_adapter unopenable_printer)\<lparr>trace := [HostDeviceOpen unopenable_printer]\<rparr>) \<and>
   constructor [] (Num 1208) Absent = Constructed (new_adapter_on_number 1208) \<and>
   open_then ''linux'' quiet_callback [] (new_adapter_on_number 1208) =
     (Some (TypeError ''this.device.open is not a function''), new_adapter_on_number 1208)"
  by (simp add: open_then_def open_sync_def log_def new_adapter_def new_adapter_on_number_def
      unopenable_printer_def printer_with_def constructor_def select_device_def)







text \<open>
  Claim C5, as the code has it. Let \<open>open()\<close> be called with a callback that does not
  throw when handed the error "Can not find endpoint from printer", on an adapter with
  no write endpoint bound, whose device opens at host level, has at least one interface
  and no interface with an "out" endpoint; let the kernel-driver query and the claim of
  every interface succeed, and let every interface's processing run exactly once, in
  any order, with no detach in between. Then \<open>open()\<close> does not throw, the callback is
  invoked exactly once, as the last action of the last interface to finish, with that
  error, and "connect" is not emitted.
\<close>

theorem endpoint_not_found_when_no_out:
  assumes "device a = Some (Handle d)" and "open_error d = None" and "endpoint a = None"
    and "interfaces d \<noteq> []"
    and "\<forall>i \<in> set (interfaces d). completes platform i \<and> \<not> has_out i"
    and "mset xs = mset (interfaces d)"
    and "\<forall>tr. f (Some (Error ''Can not find endpoint from printer'')) tr = None"
  shows "fst (open_then platform (Some f) (map AltSettingDone xs) a) = None \<and>
     open_callbacks (trace (snd (open_then platform (Some f) (map AltSettingDone xs) a))) =
       open_callbacks (trace a) @
       [OpenCallback (Some (Error ''Can not find endpoint from printer''))] \<and>
     last (trace (snd (open_then platform (Some f) (map AltSettingDone xs) a))) =
       OpenCallback (Some (Error ''Can not find endpoint from printer'')) \<and>
     connects (trace (snd (open_then platform (Some f) (map AltSettingDone xs) a))) =
       connects (trace a)"
proof -
  let ?a1 = "snd (open_sync (Some f) a)"
  let ?es = "map AltSettingDone xs"
  from assms(6) have len: "length xs = length (interfaces d)"
    by (rule mset_eq_length)
  from assms(6) have "set xs = set (interfaces d)"
    by (rule mset_eq_setD)
  with assms(5) have all: "\<forall>i \<in> set xs. completes platform i \<and> \<not> has_out i"
    by simp
  from len assms(4) have ne: "xs \<noteq> []" by auto
  have sync: "fst (open_sync (Some f) a) = None"
    using assms(1,2) by (simp add: open_sync_throws)
  then have res: "open_then platform (Some f) ?es a =
      (None, fst (run_loop platform (Some f) ?es (?a1, 0)))"
    by (simp add: open_then_split)
  have a1: "device ?a1 = Some (Handle d)" "endpoint ?a1 = None"
    using assms(1,3) by (simp_all add: open_sync_fields)
  have cbs: "open_callbacks (trace (fst (run_loop platform (Some f) ?es (?a1, 0)))) =
      open_callbacks (trace a) @
      [OpenCallback (Some (Error ''Can not find endpoint from printer''))]"
    using run_loop_no_out [where f=f and c=0, OF all a1 assms(7)] len assms(4)
    by (simp add: open_sync_fields)
  have lst: "last (trace (fst (run_loop platform (Some f) ?es (?a1, 0)))) =
      OpenCallback (Some (Error ''Can not find endpoint from printer''))"
    using run_loop_no_out_last [where f=f and c=0, OF all a1 ne _ assms(7)] len by simp
  have "dropWhile (\<lambda>i. \<not> (completes platform i \<and> has_out i)) xs = []"
    using all by (simp add: dropWhile_eq_Nil_conv)
  then have "length (filter (completes platform)
      (dropWhile (\<lambda>i. \<not> (completes platform i \<and> has_out i)) xs)) = 0"
    by (simp only: filter.simps list.size)
  then have con: "connects (trace (fst (run_loop platform (Some f) ?es (?a1, 0)))) =
      connects (trace a)"
    using run_loop_connects_unbound [OF a1(2), of platform "Some f" ?es 0]
    by (simp only: ifaces_of_map open_sync_fields add_0_right)
  from cbs lst con show ?thesis by (simp add: res)
qed

theorem endpoint_not_found_when_no_out_witness:
  "device (new_adapter printer_three_no_out) = Some (Handle printer_three_no_out) \<and>
   open_error printer_three_no_out = None \<and>
   endpoint (new_adapter printer_three_no_out) = None \<and>
   interfaces printer_three_no_out = [iface_ok 0 [ep_in], iface_ok 1 [], iface_ok 2 [ep_in]] \<and>
   completes ''linux'' (iface_ok 0 [ep_in]) \<and> \<not> has_out (iface_ok 0 [ep_in]) \<and>
   completes ''linux'' (iface_ok 1 []) \<and> \<not> has_out (iface_ok 1 []) \<and>
   completes ''linux'' (iface_ok 2 [ep_in]) \<and> \<not> has_out (iface_ok 2 [ep_in]) \<and>
   open_callbacks (trace (snd (open_then ''linux'' (Some (\<lambda>r tr. None))
       (map AltSettingDone [iface_ok 2 [ep_in], iface_ok 0 [ep_in], iface_ok 1 []])
       (new_adapter printer_three_no_out)))) =
     [OpenCallback (Some (Error ''Can not find endpoint from printer''))] \<and>
   last (trace (snd (open_then ''linux'' (Some (\<lambda>r tr. None))
       (map AltSettingDone [iface_ok 2 [ep_in], iface_ok 0 [ep_in], iface_ok 1 []])
       (new_adapter printer_three_no_out)))) =
     OpenCallback (Some (Error ''Can not find endpoint from printer'')) \<and>
   connects (trace (snd (open_then ''linux'' (Some (\<lambda>r tr. None))
       (map AltSettingDone [iface_ok 2 [ep_in], iface_ok 0 [ep_in], iface_ok 1 []])
       (new_adapter printer_three_no_out)))) = 0"
proof -
  have h1: "device (new_adapter printer_three_no_out) = Some (Handle printer_three_no_out)"
    by (simp add: new_adapter_def)
  have h2: "open_error printer_three_no_out = None"
    by (simp add: printer_three_no_out_def printer_with_def)
  have h3: "endpoint (new_adapter printer_three_no_out) = None"
    by (simp add: new_adapter_def)
  have ifs: "interfaces printer_three_no_out =
      [iface_ok 0 [ep_in], iface_ok 1 [], iface_ok 2 [ep_in]]"
    by (simp add: printer_three_no_out_def printer_with_def)
  have h4: "interfaces printer_three_no_out \<noteq> []"
    by (simp add: ifs)
  have each: "completes ''linux'' (iface_ok 0 [ep_in]) \<and> \<not> has_out (iface_ok 0 [ep_in]) \<and>
      completes ''linux'' (iface_ok 1 []) \<and> \<not> has_out (iface_ok 1 []) \<and>
      completes ''linux'' (iface_ok 2 [ep_in]) \<and> \<not> has_out (iface_ok 2 [ep_in])"
    by (simp add: completes_def kernel_query_ok_def has_out_def iface_ok_def ep_in_def)
  then have h5: "\<forall>i \<in> set (interfaces printer_three_no_out).
      completes ''linux'' i \<and> \<not> has_out i"
    by (simp add: ifs)
  have h6: "mset [iface_ok 2 [ep_in], iface_ok 0 [ep_in], iface_ok 1 []] =
      mset (interfaces printer_three_no_out)"
    by (simp add: ifs)
  have h7: "\<forall>tr. (\<lambda>r tr. None :: error option)
      (Some (Error ''Can not find endpoint from printer'')) (tr :: action list) = None"
    by simp
  have t: "trace (new_adapter printer_three_no_out) = []"
    by (simp add: new_adapter_def)
  from endpoint_not_found_when_no_out
    [where f = "\<lambda>r tr. None" and platform = "''linux''", OF h1 h2 h3 h4 h5 h6 h7]
    h1 h2 h3 each ifs
  show ?thesis by (simp add: t connects_def open_callbacks_def)
qed

text \<open>
  Claim C5 as stated fails: the counter counts only the interfaces whose processing
  reached the completion check. On a device with two interfaces and no "out"
  endpoint, when the claim of one interface throws, both interfaces finish, the
  callback receives the claim error and never the endpoint-not-found error.
\<close>

theorem claim_failure_hides_endpoint_not_found:
  "trace (snd (open_then ''linux'' quiet_callback
      [AltSettingDone (iface_busy 0 []), AltSettingDone (iface_ok 1 [ep_in])]
      (new_adapter printer_busy_then_in))) =
     [HostDeviceOpen printer_busy_then_in,
      HostSetAltSetting (iface_busy 0 []), HostSetAltSetting (iface_ok 1 [ep_in]),
      HostClaim (iface_busy 0 []),
      OpenCallback (Some (HostError ''LIBUSB_ERROR_ACCESS'')),
      HostClaim (iface_ok 1 [ep_in])]"
  by (simp add: run_defs printer_busy_then_in_def printer_with_def iface_ok_def iface_busy_def
      ep_in_def)

text \<open>
  Why the callback must not throw for that result: the call on line 115 is inside the
  \<open>try\<close>, so a callback that throws on the endpoint-not-found error is called a second
  time, from the \<open>catch\<close>, with what it threw.
\<close>

lemma throwing_callback_called_twice:
  "trace (snd (open_then ''linux'' rethrowing_callback [AltSettingDone (iface_ok 0 [ep_in])]
      (new_adapter printer_in_only))) =
     [HostDeviceOpen printer_in_only, HostSetAltSetting (iface_ok 0 [ep_in]),
      HostClaim (iface_ok 0 [ep_in]),
      OpenCallback (Some (Error ''Can not find endpoint from printer'')),
      OpenCallback (Some (Error ''Can not find endpoint from printer'')),
      Uncaught (Error ''Can not find endpoint from printer'')]"
  by (simp add: run_defs printer_in_only_def printer_with_def iface_ok_def ep_in_def)

subsection \<open>Detach and close\<close>

lemma detach_owned:
  "listening a \<Longrightarrow> device a = Some (Handle d) \<Longrightarrow>
   usb_detach d a =
     a\<lparr>trace := trace a @ [Emit (Detach d), Emit (Disconnect d)], device := None\<rparr>"
  by (simp add: usb_detach_def on_detach_def log_def)

lemma detach_other: "device a \<noteq> Some (Handle d) \<Longrightarrow> usb_detach d a = a"
  by (auto simp: usb_detach_def on_detach_def)

lemma close_null_device:
  "device a = None \<Longrightarrow>
   close True a =
     a\<lparr>trace := trace a @
        [CloseCallback None,
         CloseCallback (Some (TypeError ''Cannot read properties of null (reading close)''))]\<rparr>"
  by (simp add: close_def invoke_def log_def)

text \<open>
  Claim C3, evaluated. \<open>close()\<close> on an adapter whose device reference is null invokes
  the callback with no error and then, the first line of \<open>close\<close> having no \<open>return\<close>,
  a second time with the \<open>TypeError\<close> raised by \<open>this.device.close()\<close>; the host-level
  release is not invoked. A successful \<open>close()\<close> does not clear the device reference:
  a second \<open>close()\<close> releases the device at host level again.
\<close>

theorem close_on_null_device_reports_error:
  "trace (close True ((new_adapter (printer_with []))\<lparr>device := None\<rparr>)) =
     [CloseCallback None,
      CloseCallback (Some (TypeError ''Cannot read properties of null (reading close)''))] \<and>
   trace (close True (close True (new_adapter (printer_with [])))) =
     [HostDeviceClose (printer_with []), HostRemoveAllListeners, CloseCallback None,
      Emit (Close (printer_with [])),
      HostDeviceClose (printer_with []), HostRemoveAllListeners, CloseCallback None,
      Emit (Close (printer_with []))]"
  by (simp add: close_def invoke_def log_def new_adapter_def printer_with_def)

text \<open>
  Claim C7, evaluated. A detach notification for the owned device emits "detach", then
  "disconnect", and clears the device reference; one for another device changes
  nothing. The \<open>close()\<close> that follows the detach invokes its callback with no error and
  then once more with a \<open>TypeError\<close>.
\<close>

theorem close_after_detach_reports_error:
  "usb_detach (printer_with []) (new_adapter (printer_with [])) =
     (new_adapter (printer_with []))
       \<lparr>device := None,
        trace := [Emit (Detach (printer_with [])), Emit (Disconnect (printer_with []))]\<rparr> \<and>
   usb_detach hub_device (new_adapter (printer_with [])) = new_adapter (printer_with []) \<and>
   trace (close True (usb_detach (printer_with []) (new_adapter (printer_with [])))) =
     [Emit (Detach (printer_with [])), Emit (Disconnect (printer_with [])),
      CloseCallback None,
      CloseCallback (Some (TypeError ''Cannot read properties of null (reading close)''))]"
  by (simp add: close_def invoke_def log_def new_adapter_def usb_detach_def on_detach_def
      printer_with_def hub_device_def)

end
